theory Spec2Isabelle
  imports Complex_Main
begin

section \<open>Values shared by the collector and the analyzer\<close>

text \<open>
  Python floats are modelled as the reals extended by one not-a-number value. Every
  comparison with \<open>NaN\<close> is false and every arithmetic operation on it gives \<open>NaN\<close>
  again, as in IEEE arithmetic. The two operations whose rounding decides a result, the
  difference and the doubling in the anomaly test, round as binary64 does
  (\<open>round_double\<close> below); the other quantities are the exact ones, of which the
  program holds the nearest double.
\<close>

datatype pyfloat = NaN | Fin real

text \<open>The Python exceptions the two programs can meet.\<close>

datatype py_error = TypeError | KeyError | IndexError | StoreError

text \<open>
  A point as the \<open>influxdb_client.Point\<close> builder assembles it: the measurement name,
  the fields in the order of the \<open>.field(...)\<close> calls, and the timestamp given with
  \<open>.time(...)\<close> (seconds since the epoch; \<open>None\<close> when the builder is never given
  one). The bucket is the list of the points written so far, oldest write first.
\<close>

datatype field_value = FloatV pyfloat | IntV int | StrV string

record point =
  measurement :: string
  point_fields :: "(string \<times> field_value) list"
  point_time :: "int option"

text \<open>
  \<open>write_api.write(bucket=..., record=point)\<close> with the synchronous write options:
  the point is appended, or the call raises when the store cannot be reached. Whether
  the store accepts the write is an input of the model.
\<close>

definition write_api_write :: "bool \<Rightarrow> point list \<Rightarrow> point \<Rightarrow> py_error + point list" where
  "write_api_write accepted bucket p =
     (if accepted then Inr (bucket @ [p]) else Inl StoreError)"


section \<open>The collector (collector.py)\<close>

text \<open>What \<open>psutil.net_io_counters()\<close> returns: cumulative totals since boot.\<close>

record snetio =
  bytes_sent :: int
  bytes_recv :: int
  packets_sent :: int
  packets_recv :: int
  errin :: int
  errout :: int

text \<open>
  The dictionary \<open>get_network_stats\<close> returns, and the same dictionary after
  \<open>main\<close> has stored the probe's result under the key \<open>latency\<close> (Python's
  \<open>None\<close> is \<open>None\<close> here).
\<close>

record net_stats =
  download_speed :: real
  upload_speed :: real
  packets_sent :: int
  packets_recv :: int
  errors_in :: int
  errors_out :: int

record stats = net_stats +
  latency :: "real option"

text \<open>
  \<open>get_latency\<close>: the outcome of \<open>sock.connect\<close> is the input, either the
  seconds that passed between the two \<open>time.time()\<close> calls or the exception that
  the \<open>except\<close> clause turns into \<open>None\<close>.
\<close>

datatype connect_result = Connected real | ConnectFailed

definition get_latency :: "connect_result \<Rightarrow> real option" where
  "get_latency r =
     (case r of
        Connected elapsed \<Rightarrow> Some (elapsed * 1000)
      | ConnectFailed \<Rightarrow> None)"

text \<open>
  The seconds \<open>get_network_stats\<close> sleeps between its two counter reads
  (\<open>time.sleep(1)\<close>).
\<close>

definition SAMPLE_INTERVAL :: real where
  "SAMPLE_INTERVAL = 1"

text \<open>
  \<open>get_network_stats\<close>: the two counter reads are the inputs, \<open>None\<close> for a read
  that raised. Any exception makes the function return \<open>None\<close>. The rates are the
  byte deltas times 8 over one million, with Python's true division; packets and errors
  are the second read's totals.
\<close>

definition get_network_stats :: "snetio option \<Rightarrow> snetio option \<Rightarrow> net_stats option" where
  "get_network_stats read1 read2 =
     (case read1 of
        None \<Rightarrow> None
      | Some c1 \<Rightarrow>
          (case read2 of
             None \<Rightarrow> None
           | Some c2 \<Rightarrow>
               Some \<lparr>download_speed = of_int ((bytes_recv c2 - bytes_recv c1) * 8) / 1000000,
                     upload_speed = of_int ((bytes_sent c2 - bytes_sent c1) * 8) / 1000000,
                     packets_sent = snetio.packets_sent c2,
                     packets_recv = snetio.packets_recv c2,
                     errors_in = errin c2,
                     errors_out = errout c2\<rparr>))"

text \<open>
  The point \<open>write_to_influxdb\<close> builds (lines 111 to 119). \<open>float(None)\<close>
  raises \<open>TypeError\<close>; the other conversions are the identity on the values the
  dictionary holds.
\<close>

definition network_point :: "stats \<Rightarrow> int \<Rightarrow> py_error + point" where
  "network_point s now =
     (case latency s of
        None \<Rightarrow> Inl TypeError
      | Some l \<Rightarrow>
          Inr \<lparr>measurement = ''network_metrics'',
               point_fields = [(''download_speed'', FloatV (Fin (download_speed s))),
                               (''upload_speed'', FloatV (Fin (upload_speed s))),
                               (''packets_sent'', IntV (packets_sent s)),
                               (''packets_recv'', IntV (packets_recv s)),
                               (''errors_in'', IntV (errors_in s)),
                               (''errors_out'', IntV (errors_out s)),
                               (''latency'', FloatV (Fin l))],
               point_time = Some now\<rparr>)"

text \<open>
  \<open>write_to_influxdb\<close>: returns the bucket after the call. The validation returns
  early; every exception raised while building or writing the point is caught and
  logged, and leaves the bucket as it was.
\<close>

definition write_to_influxdb :: "bool \<Rightarrow> int \<Rightarrow> stats \<Rightarrow> point list \<Rightarrow> point list" where
  "write_to_influxdb accepted now s bucket =
     (if download_speed s < 0 \<or> upload_speed s < 0 \<or> packets_sent s < 0 \<or> packets_recv s < 0
      then bucket
      else
        (case network_point s now of
           Inl e \<Rightarrow> bucket
         | Inr p \<Rightarrow>
             (case write_api_write accepted bucket p of
                Inl e \<Rightarrow> bucket
              | Inr bucket' \<Rightarrow> bucket')))"

text \<open>What the environment does during one pass of the loop in \<open>main\<close>.\<close>

record tick_env =
  first_read :: "snetio option"
  second_read :: "snetio option"
  connect :: connect_result
  write_time :: int
  store_accepts :: bool

text \<open>
  One pass of the \<open>while True\<close> body. \<open>network_stats['latency'] = get_latency()\<close>
  runs before the \<open>if network_stats:\<close> test: on \<open>None\<close> the item assignment
  raises \<open>TypeError\<close>, which leaves the body. After the assignment the dictionary is
  not empty, so the test passes.
\<close>

definition collector_tick :: "tick_env \<Rightarrow> point list \<Rightarrow> py_error + point list" where
  "collector_tick e bucket =
     (let network_stats = get_network_stats (first_read e) (second_read e);
          probed = get_latency (connect e)
      in case network_stats of
           None \<Rightarrow> Inl TypeError
         | Some ns \<Rightarrow>
             Inr (write_to_influxdb (store_accepts e) (write_time e)
                    (net_stats.extend ns (stats.fields probed)) bucket))"

text \<open>
  \<open>main\<close>: the loop stands inside the \<open>try\<close>, so an exception that leaves the
  body leaves the loop; the handler logs it and \<open>main\<close> returns. The list holds the
  environment of the passes made so far: \<open>Running\<close> says that the loop is still
  going after them, \<open>Exited\<close> that it has ended and with which exception.
\<close>

datatype loop_state = Running | Exited py_error

fun main_loop :: "tick_env list \<Rightarrow> point list \<Rightarrow> loop_state \<times> point list" where
  "main_loop [] bucket = (Running, bucket)"
| "main_loop (e # es) bucket =
     (case collector_tick e bucket of
        Inl err \<Rightarrow> (Exited err, bucket)
      | Inr bucket' \<Rightarrow> main_loop es bucket')"


section \<open>The analyzer (predictor.py)\<close>

subsection \<open>Configuration\<close>

record threshold_levels =
  optimal :: real
  warning :: real
  critical :: real

record period_thresholds =
  peak :: threshold_levels
  off_peak :: threshold_levels

record thresholds_cfg =
  peak_hours :: "nat list"
  upload_thresholds :: period_thresholds
  latency_thresholds :: period_thresholds

text \<open>\<open>self.thresholds\<close> as \<open>__init__\<close> sets it; \<open>range(9, 18)\<close> is \<open>[9..<18]\<close>.\<close>

definition thresholds :: thresholds_cfg where
  "thresholds =
     \<lparr>peak_hours = [9..<18],
      upload_thresholds =
        \<lparr>peak = \<lparr>optimal = 0.75, warning = 0.50, critical = 0.25\<rparr>,
         off_peak = \<lparr>optimal = 0.85, warning = 0.60, critical = 0.35\<rparr>\<rparr>,
      latency_thresholds =
        \<lparr>peak = \<lparr>optimal = 30, warning = 50, critical = 100\<rparr>,
         off_peak = \<lparr>optimal = 20, warning = 40, critical = 80\<rparr>\<rparr>\<rparr>"

subsection \<open>Float operations with NaN\<close>

text \<open>
  Rounding to the nearest double, ties to the even significand: the exponent of the
  binade of \<open>x\<close> (not below that of the smallest normal double, so that the
  subnormal doubles share one spacing), the spacing of the doubles there (53 bits of
  significand), and the multiple of the spacing nearest to \<open>x\<close>. A result that
  would reach \<open>2 ^ 1024\<close> in magnitude overflows: the value \<open>2 ^ 1024\<close> with the
  sign of \<open>x\<close> stands for the infinity, which is above every double and not above
  itself.
\<close>

definition round_half_even :: "real \<Rightarrow> int" where
  "round_half_even y =
     (let f = \<lfloor>y\<rfloor>; r = y - of_int f
      in if r < 1/2 then f
         else if 1/2 < r then f + 1
         else if even f then f else f + 1)"

definition round_double :: "real \<Rightarrow> real" where
  "round_double x =
     (if x = 0 then 0
      else
        (let e = max \<lfloor>log 2 \<bar>x\<bar>\<rfloor> (- 1022);
             q = 2 powi (e - 52);
             r = of_int (round_half_even (x / q)) * q
         in if 2 ^ 1024 \<le> \<bar>r\<bar> then sgn x * 2 ^ 1024 else r))"


fun fsub :: "pyfloat \<Rightarrow> pyfloat \<Rightarrow> pyfloat" where
  "fsub (Fin a) (Fin b) = Fin (round_double (a - b))"
| "fsub _ _ = NaN"

fun fmul :: "pyfloat \<Rightarrow> pyfloat \<Rightarrow> pyfloat" where
  "fmul (Fin a) (Fin b) = Fin (round_double (a * b))"
| "fmul _ _ = NaN"

fun fabs :: "pyfloat \<Rightarrow> pyfloat" where
  "fabs (Fin a) = Fin \<bar>a\<bar>"
| "fabs NaN = NaN"

fun fgt :: "pyfloat \<Rightarrow> pyfloat \<Rightarrow> bool" where
  "fgt (Fin a) (Fin b) = (a > b)"
| "fgt _ _ = False"

fun fge :: "pyfloat \<Rightarrow> pyfloat \<Rightarrow> bool" where
  "fge (Fin a) (Fin b) = (a \<ge> b)"
| "fge _ _ = False"

fun fle :: "pyfloat \<Rightarrow> pyfloat \<Rightarrow> bool" where
  "fle (Fin a) (Fin b) = (a \<le> b)"
| "fle _ _ = False"

subsection \<open>The data frame and the pandas operations used\<close>

text \<open>
  A row of the pivoted query result: its \<open>_time\<close> and, for each column name, the
  value, \<open>NaN\<close> where the row has none.
\<close>

record row =
  row_time :: int
  row_value :: "string \<Rightarrow> pyfloat"

text \<open>
  The Flux query of \<open>get_recent_data\<close>, read from its text: the points of the
  measurement \<open>network_metrics\<close> whose time lies in the trailing window
  (\<open>range(start: -5m)\<close> stops at the time of the query), one row per point after the
  pivot, in the order of time. The collector gives every point a time of its own, so
  no two points are merged into one row.
\<close>

definition field_number :: "point \<Rightarrow> string \<Rightarrow> pyfloat" where
  "field_number p k =
     (case map_of (point_fields p) k of
        Some (FloatV x) \<Rightarrow> x
      | Some (IntV i) \<Rightarrow> Fin (of_int i)
      | _ \<Rightarrow> NaN)"

definition row_of_point :: "int \<Rightarrow> int \<Rightarrow> point \<Rightarrow> row option" where
  "row_of_point start stop p =
     (case point_time p of
        None \<Rightarrow> None
      | Some t \<Rightarrow>
          if measurement p = ''network_metrics'' \<and> start \<le> t \<and> t < stop
          then Some \<lparr>row_time = t, row_value = field_number p\<rparr>
          else None)"

definition query_data_frame :: "point list \<Rightarrow> int \<Rightarrow> int \<Rightarrow> row list" where
  "query_data_frame bucket now minutes =
     sort_key row_time (List.map_filter (row_of_point (now - minutes * 60) now) bucket)"

text \<open>
  \<open>data[k]\<close>: the column, or \<open>KeyError\<close> when the frame has no such column. The
  pivot makes a column for a field exactly when some row has a value for it.
\<close>

definition column :: "row list \<Rightarrow> string \<Rightarrow> py_error + pyfloat list" where
  "column data k =
     (if list_all (\<lambda>r. row_value r k = NaN) data then Inl KeyError
      else Inr (map (\<lambda>r. row_value r k) data))"

text \<open>\<open>.iloc[-1]\<close>: the last entry, \<open>IndexError\<close> on an empty series.\<close>

definition iloc_last :: "'a list \<Rightarrow> py_error + 'a" where
  "iloc_last xs = (if xs = [] then Inl IndexError else Inr (last xs))"

text \<open>
  \<open>Series.mean()\<close> and \<open>Series.std()\<close> with their defaults: missing values are
  skipped, the standard deviation divides by the count less one, and the result is
  \<open>NaN\<close> when too few values are left (none for the mean, fewer than two for the
  standard deviation).
\<close>

fun non_missing :: "pyfloat list \<Rightarrow> real list" where
  "non_missing [] = []"
| "non_missing (NaN # xs) = non_missing xs"
| "non_missing (Fin x # xs) = x # non_missing xs"

definition arithmetic_mean :: "real list \<Rightarrow> real" where
  "arithmetic_mean ys = sum_list ys / real (length ys)"

definition series_mean :: "pyfloat list \<Rightarrow> pyfloat" where
  "series_mean xs =
     (let ys = non_missing xs
      in if ys = [] then NaN else Fin (arithmetic_mean ys))"

definition series_std :: "pyfloat list \<Rightarrow> pyfloat" where
  "series_std xs =
     (let ys = non_missing xs; m = arithmetic_mean ys
      in if length ys < 2 then NaN
         else Fin (sqrt (sum_list (map (\<lambda>y. (y - m)\<^sup>2) ys) / real (length ys - 1))))"

subsection \<open>The methods of SimpleServerMonitor\<close>

definition get_recent_data :: "bool \<Rightarrow> point list \<Rightarrow> int \<Rightarrow> int \<Rightarrow> row list option" where
  "get_recent_data query_answers bucket now minutes =
     (if \<not> query_answers then None
      else
        (let result = query_data_frame bucket now minutes
         in if result = [] then None else Some result))"

record metric_stats =
  current :: pyfloat
  avg_5min :: pyfloat
  std_5min :: pyfloat

record averages =
  upload_speed_stats :: metric_stats
  latency_stats :: metric_stats

definition metric_averages :: "row list \<Rightarrow> string \<Rightarrow> py_error + metric_stats" where
  "metric_averages data k =
     (case column data k of
        Inl e \<Rightarrow> Inl e
      | Inr xs \<Rightarrow>
          (case iloc_last xs of
             Inl e \<Rightarrow> Inl e
           | Inr c \<Rightarrow> Inr \<lparr>current = c, avg_5min = series_mean xs, std_5min = series_std xs\<rparr>))"

definition calculate_averages :: "row list \<Rightarrow> py_error + averages" where
  "calculate_averages data =
     (case metric_averages data ''upload_speed'' of
        Inl e \<Rightarrow> Inl e
      | Inr u \<Rightarrow>
          (case metric_averages data ''latency'' of
             Inl e \<Rightarrow> Inl e
           | Inr l \<Rightarrow> Inr \<lparr>upload_speed_stats = u, latency_stats = l\<rparr>))"

text \<open>
  \<open>detect_simple_anomalies\<close>: the test of the loop body, and the loop over the two
  metrics, which returns at the first metric that passes the test.
\<close>

definition deviates :: "metric_stats \<Rightarrow> bool" where
  "deviates m = fgt (fabs (fsub (current m) (avg_5min m))) (fmul (Fin 2) (std_5min m))"

fun anomaly_loop :: "metric_stats list \<Rightarrow> bool" where
  "anomaly_loop [] = False"
| "anomaly_loop (m # ms) = (if deviates m then True else anomaly_loop ms)"

definition detect_simple_anomalies :: "averages \<Rightarrow> bool" where
  "detect_simple_anomalies st = anomaly_loop [upload_speed_stats st, latency_stats st]"

text \<open>The hour of day of a timestamp, as \<open>pd.to_datetime(...).hour\<close> reads it.\<close>

definition hour_of :: "int \<Rightarrow> nat" where
  "hour_of t = nat ((t div 3600) mod 24)"

record health_analysis =
  status :: string
  health_score :: real
  is_peak_hour :: bool

definition analyze_server_health ::
    "thresholds_cfg \<Rightarrow> row list \<Rightarrow> averages \<Rightarrow> py_error + health_analysis" where
  "analyze_server_health th current_data st =
     (case iloc_last (map row_time current_data) of
        Inl e \<Rightarrow> Inl e
      | Inr t \<Rightarrow>
          (let current_hour = hour_of t;
               is_peak = (current_hour \<in> set (peak_hours th));
               up = (if is_peak then peak (upload_thresholds th)
                     else off_peak (upload_thresholds th));
               la = (if is_peak then peak (latency_thresholds th)
                     else off_peak (latency_thresholds th));
               current_upload = current (upload_speed_stats st);
               current_latency = current (latency_stats st);
               score_upload =
                 (if fge current_upload (Fin (optimal up)) then 0 + 0.4
                  else if fge current_upload (Fin (warning up)) then 0 + 0.2
                  else 0);
               score =
                 (if fle current_latency (Fin (optimal la)) then score_upload + 0.6
                  else if fle current_latency (Fin (warning la)) then score_upload + 0.3
                  else score_upload);
               label =
                 (if score \<ge> 0.8 then ''optimal''
                  else if score \<ge> 0.5 then ''good''
                  else if score \<ge> 0.3 then ''warning''
                  else ''critical'')
           in Inr \<lparr>status = label, health_score = score, is_peak_hour = is_peak\<rparr>))"

text \<open>The point \<open>monitor_and_analyze\<close> builds; it is given no time.\<close>

definition analysis_point :: "averages \<Rightarrow> bool \<Rightarrow> health_analysis \<Rightarrow> point" where
  "analysis_point st is_anomaly h =
     \<lparr>measurement = ''server_analysis'',
      point_fields = [(''current_upload'', FloatV (current (upload_speed_stats st))),
                      (''current_latency'', FloatV (current (latency_stats st))),
                      (''avg_upload_5min'', FloatV (avg_5min (upload_speed_stats st))),
                      (''avg_latency_5min'', FloatV (avg_5min (latency_stats st))),
                      (''health_status'', StrV (status h)),
                      (''health_score'', FloatV (Fin (health_score h))),
                      (''is_anomaly'', IntV (if is_anomaly then 1 else 0)),
                      (''is_peak_hour'', IntV (if is_peak_hour h then 1 else 0))],
      point_time = None\<rparr>"

record analyzer_env =
  now :: int
  query_answers :: bool
  write_accepted :: bool

text \<open>
  \<open>monitor_and_analyze\<close>: returns the bucket after the call. It returns early when
  there is no recent data; every exception is caught and logged, and leaves the
  bucket as it was.
\<close>

definition monitor_and_analyze :: "thresholds_cfg \<Rightarrow> analyzer_env \<Rightarrow> point list \<Rightarrow> point list" where
  "monitor_and_analyze th e bucket =
     (case get_recent_data (query_answers e) bucket (now e) 5 of
        None \<Rightarrow> bucket
      | Some recent_data \<Rightarrow>
          if recent_data = [] then bucket
          else
            (case calculate_averages recent_data of
               Inl err \<Rightarrow> bucket
             | Inr st \<Rightarrow>
                 (let is_anomaly = detect_simple_anomalies st
                  in case analyze_server_health th recent_data st of
                       Inl err \<Rightarrow> bucket
                     | Inr health \<Rightarrow>
                         (case write_api_write (write_accepted e) bucket
                                 (analysis_point st is_anomaly health) of
                            Inl err \<Rightarrow> bucket
                          | Inr bucket' \<Rightarrow> bucket'))))"


section \<open>Predicates used to state the properties\<close>

text \<open>
  A persisted \<open>network_metrics\<close> point whose two rates, as a reader of the series
  gets them, are numbers not below zero; and a bucket in which every
  \<open>network_metrics\<close> point is such a point.
\<close>

definition nonneg_speeds :: "point \<Rightarrow> bool" where
  "nonneg_speeds p =
     (fge (field_number p ''download_speed'') (Fin 0) \<and>
      fge (field_number p ''upload_speed'') (Fin 0))"

definition speeds_ok :: "point list \<Rightarrow> bool" where
  "speeds_ok bucket =
     list_all (\<lambda>p. measurement p \<noteq> ''network_metrics'' \<or> nonneg_speeds p) bucket"




section \<open>Concrete inputs\<close>

text \<open>
  Passes of the collector loop: a pass in which traffic flowed and the probe connected;
  a pass in which the interface was restarted between the two reads, so that the second
  totals are below the first; a pass in which the probe could not connect; and a pass in
  which the first counter read raised.
\<close>

definition good_tick :: tick_env where
  "good_tick =
     \<lparr>first_read = Some \<lparr>bytes_sent = 5000000, bytes_recv = 9000000, packets_sent = 400,
                          packets_recv = 700, errin = 0, errout = 0\<rparr>,
      second_read = Some \<lparr>bytes_sent = 5100000, bytes_recv = 9250000, packets_sent = 480,
                           packets_recv = 910, errin = 0, errout = 0\<rparr>,
      connect = Connected 0.025, write_time = 64680, store_accepts = True\<rparr>"

definition reset_tick :: tick_env where
  "reset_tick =
     \<lparr>first_read = Some \<lparr>bytes_sent = 5100000, bytes_recv = 9250000, packets_sent = 480,
                          packets_recv = 910, errin = 0, errout = 0\<rparr>,
      second_read = Some \<lparr>bytes_sent = 1000, bytes_recv = 2000, packets_sent = 3,
                           packets_recv = 5, errin = 0, errout = 0\<rparr>,
      connect = Connected 0.025, write_time = 64685, store_accepts = True\<rparr>"

definition probe_failed_tick :: tick_env where
  "probe_failed_tick = good_tick\<lparr>connect := ConnectFailed\<rparr>"

definition read_failed_tick :: tick_env where
  "read_failed_tick = good_tick\<lparr>first_read := None\<rparr>"

text \<open>The dictionary the pass with the restarted interface hands to the writer.\<close>

definition reset_stats :: stats where
  "reset_stats =
     \<lparr>download_speed = - 73.984, upload_speed = - 40.792, packets_sent = 3, packets_recv = 5,
      errors_in = 0, errors_out = 0, latency = Some 25\<rparr>"

text \<open>A dictionary whose error totals and latency are below zero.\<close>

definition odd_stats :: stats where
  "odd_stats =
     \<lparr>download_speed = 2, upload_speed = 0.8, packets_sent = 480, packets_recv = 910,
      errors_in = - 4, errors_out = - 1, latency = Some (- 3)\<rparr>"


text \<open>
  For the analyzer: a row of the query result with an upload rate and a latency, and
  the bucket after one good pass of the collector, whose point carries the time 17:58:00
  of the first day (64680 seconds), an upload rate of 0.8 and a latency of 25.
\<close>

definition sample_row :: "int \<Rightarrow> real \<Rightarrow> real \<Rightarrow> row" where
  "sample_row t u l =
     \<lparr>row_time = t,
      row_value = (\<lambda>k. if k = ''upload_speed'' then Fin u
                        else if k = ''latency'' then Fin l else NaN)\<rparr>"

definition good_point :: point where
  "good_point =
     \<lparr>measurement = ''network_metrics'',
      point_fields = [(''download_speed'', FloatV (Fin 2)),
                      (''upload_speed'', FloatV (Fin 0.8)),
                      (''packets_sent'', IntV 480),
                      (''packets_recv'', IntV 910),
                      (''errors_in'', IntV 0),
                      (''errors_out'', IntV 0),
                      (''latency'', FloatV (Fin 25))],
      point_time = Some 64680\<rparr>"


text \<open>
  A dictionary whose four checked fields are not below zero and whose latency is
  \<open>None\<close>, as \<open>main\<close> hands it to the writer after a failed probe.
\<close>

definition no_latency_stats :: stats where
  "no_latency_stats =
     \<lparr>download_speed = 2, upload_speed = 0.8, packets_sent = 480, packets_recv = 910,
      errors_in = - 4, errors_out = - 1, latency = None\<rparr>"


text \<open>
  The statistics \<open>calculate_averages\<close> gives for a window of one such row.
\<close>

definition sample_stats :: "real \<Rightarrow> real \<Rightarrow> averages" where
  "sample_stats u l =
     \<lparr>upload_speed_stats = \<lparr>current = Fin u, avg_5min = Fin u, std_5min = NaN\<rparr>,
      latency_stats = \<lparr>current = Fin l, avg_5min = Fin l, std_5min = NaN\<rparr>\<rparr>"


section \<open>The collector: what is written and what is not\<close>

lemma write_to_influxdb_drops:
  "download_speed s < 0 \<or> upload_speed s < 0 \<or> packets_sent s < 0 \<or> packets_recv s < 0
     \<Longrightarrow> write_to_influxdb acc t s bucket = bucket"
  by (simp add: write_to_influxdb_def)

lemma write_to_influxdb_speeds_ok:
  "speeds_ok bucket \<Longrightarrow> speeds_ok (write_to_influxdb acc t s bucket)"
  by (auto simp: write_to_influxdb_def network_point_def write_api_write_def speeds_ok_def
      nonneg_speeds_def field_number_def split: option.splits)

lemma collector_tick_speeds_ok:
  "speeds_ok bucket \<Longrightarrow> collector_tick e bucket = Inr bucket' \<Longrightarrow> speeds_ok bucket'"
  by (auto simp: collector_tick_def Let_def write_to_influxdb_speeds_ok split: option.splits)

lemma main_loop_speeds_ok:
  "speeds_ok bucket \<Longrightarrow> speeds_ok (snd (main_loop es bucket))"
proof (induction es arbitrary: bucket)
  case Nil
  then show ?case by simp
next
  case (Cons e es)
  show ?case
  proof (cases "collector_tick e bucket")
    case (Inl err)
    with Cons.prems show ?thesis by simp
  next
    case (Inr bucket')
    with Cons.prems have "speeds_ok bucket'" by (simp add: collector_tick_speeds_ok)
    with Cons.IH Inr show ?thesis by simp
  qed
qed

lemma good_tick_stats:
  "get_network_stats (first_read good_tick) (second_read good_tick) =
     Some \<lparr>download_speed = 2, upload_speed = 0.8, packets_sent = 480, packets_recv = 910,
           errors_in = 0, errors_out = 0\<rparr>"
  by (simp add: good_tick_def get_network_stats_def)

lemma reset_tick_stats:
  "get_network_stats (first_read reset_tick) (second_read reset_tick) =
     Some \<lparr>download_speed = - 73.984, upload_speed = - 40.792, packets_sent = 3,
           packets_recv = 5, errors_in = 0, errors_out = 0\<rparr>"
  by (simp add: reset_tick_def get_network_stats_def)

text \<open>
  C1. A dictionary in which the download rate, the upload rate, the packets sent or the
  packets received is below zero leaves the bucket as it was: nothing is written. So
  the writer, and the whole collector loop over any passes (a pass after a counter
  reset among them), keep a bucket in which no \<open>network_metrics\<close> point has a rate
  below zero.
\<close>

theorem negative_record_never_persisted:
  "(download_speed s < 0 \<or> upload_speed s < 0 \<or> packets_sent s < 0 \<or> packets_recv s < 0
      \<longrightarrow> write_to_influxdb acc t s bucket = bucket) \<and>
   (speeds_ok bucket \<longrightarrow> speeds_ok (write_to_influxdb acc t s bucket)) \<and>
   (speeds_ok bucket \<longrightarrow> speeds_ok (snd (main_loop es bucket)))"
proof (intro conjI impI)
  assume "download_speed s < 0 \<or> upload_speed s < 0 \<or> packets_sent s < 0 \<or> packets_recv s < 0"
  then show "write_to_influxdb acc t s bucket = bucket"
    by (rule write_to_influxdb_drops)
next
  assume "speeds_ok bucket"
  then show "speeds_ok (write_to_influxdb acc t s bucket)"
    by (rule write_to_influxdb_speeds_ok)
next
  assume "speeds_ok bucket"
  then show "speeds_ok (snd (main_loop es bucket))"
    by (rule main_loop_speeds_ok)
qed

theorem negative_record_never_persisted_witness:
  "upload_speed reset_stats < 0 \<and>
   write_to_influxdb True 64685 reset_stats [good_point] = [good_point] \<and>
   speeds_ok [] \<and>
   speeds_ok (write_to_influxdb True 64685 reset_stats []) \<and>
   speeds_ok (snd (main_loop [good_tick, reset_tick] [])) \<and>
   main_loop [good_tick, reset_tick] [] = (Running, [good_point])"
proof -
  have neg: "upload_speed reset_stats < 0"
    by (simp add: reset_stats_def)
  have empty: "speeds_ok []"
    by (simp add: speeds_ok_def)
  have run: "main_loop [good_tick, reset_tick] [] = (Running, [good_point])"
    by (simp add: good_tick_def reset_tick_def good_point_def collector_tick_def
        get_network_stats_def get_latency_def write_to_influxdb_def network_point_def
        write_api_write_def net_stats.defs stats.defs)
  from negative_record_never_persisted
         [of reset_stats True 64685 "[good_point]" "[good_tick, reset_tick]"]
       negative_record_never_persisted
         [of reset_stats True 64685 "[]" "[good_tick, reset_tick]"] neg empty run
  show ?thesis by simp
qed

text \<open>
  C2. When a counter read raises, \<open>get_network_stats\<close> returns \<open>None\<close> and the
  pass raises \<open>TypeError\<close> at the item assignment, before the test that would have
  skipped the write: the loop ends there, and the passes that would have followed are
  never made.
\<close>

theorem failed_read_ends_main_loop:
  "main_loop (e\<lparr>first_read := None\<rparr> # es) bucket = (Exited TypeError, bucket) \<and>
   main_loop (e\<lparr>second_read := None\<rparr> # es) bucket = (Exited TypeError, bucket) \<and>
   main_loop [read_failed_tick, good_tick] [] = (Exited TypeError, [])"
  by (simp add: collector_tick_def get_network_stats_def read_failed_tick_def
      split: option.splits)

text \<open>
  C3. The code departs from the claim. In a pass whose counter reads succeed with rates
  and totals not below zero and whose probe cannot connect, \<open>get_latency\<close> returns
  \<open>None\<close>, the writer raises \<open>TypeError\<close> while converting it, its own handler
  catches the exception, and nothing is written for that pass.
\<close>

theorem failed_probe_writes_nothing:
  "get_latency (connect probe_failed_tick) = None \<and>
   get_network_stats (first_read probe_failed_tick) (second_read probe_failed_tick) =
     Some \<lparr>download_speed = 2, upload_speed = 0.8, packets_sent = 480, packets_recv = 910,
           errors_in = 0, errors_out = 0\<rparr> \<and>
   network_point
     \<lparr>download_speed = 2, upload_speed = 0.8, packets_sent = 480, packets_recv = 910,
      errors_in = 0, errors_out = 0, latency = None\<rparr> 64680 = Inl TypeError \<and>
   collector_tick probe_failed_tick [] = Inr []"
  by (simp add: probe_failed_tick_def good_tick_def collector_tick_def get_network_stats_def
      get_latency_def write_to_influxdb_def network_point_def net_stats.defs stats.defs)

text \<open>
  The same in general: every pass whose counter reads succeed and whose probe fails
  leaves the bucket as it was, and the loop goes on to the next pass.
\<close>

theorem failed_probe_drops_tick:
  "get_network_stats (first_read e) (second_read e) = Some ns \<Longrightarrow>
   get_latency (connect e) = None \<Longrightarrow>
     collector_tick e bucket = Inr bucket \<and> main_loop (e # es) bucket = main_loop es bucket"
  by (simp add: collector_tick_def write_to_influxdb_def network_point_def
      net_stats.defs stats.defs)

theorem failed_probe_drops_tick_witness:
  "get_network_stats (first_read probe_failed_tick) (second_read probe_failed_tick) =
     Some \<lparr>download_speed = 2, upload_speed = 0.8, packets_sent = 480, packets_recv = 910,
           errors_in = 0, errors_out = 0\<rparr> \<and>
   get_latency (connect probe_failed_tick) = None \<and>
   collector_tick probe_failed_tick [] = Inr [] \<and>
   main_loop [probe_failed_tick, read_failed_tick] [] = (Exited TypeError, [])"
proof -
  have a: "get_network_stats (first_read probe_failed_tick) (second_read probe_failed_tick) =
     Some \<lparr>download_speed = 2, upload_speed = 0.8, packets_sent = 480, packets_recv = 910,
           errors_in = 0, errors_out = 0\<rparr>"
    by (simp add: probe_failed_tick_def good_tick_def get_network_stats_def)
  have b: "get_latency (connect probe_failed_tick) = None"
    by (simp add: probe_failed_tick_def get_latency_def)
  have c: "main_loop [read_failed_tick] [] = (Exited TypeError, [])"
    by (simp add: read_failed_tick_def collector_tick_def get_network_stats_def)
  from failed_probe_drops_tick [OF a b, of "[]" "[read_failed_tick]"] a b c
  show ?thesis by simp
qed

text \<open>
  C8. When both counter reads succeed, the upload rate is the difference of the bytes
  sent, times 8, over one million, over the sampling interval (the one second the
  function sleeps), and the download rate is the same of the bytes received; a second
  total not below the first gives a rate not below zero.
\<close>

theorem get_network_stats_rates:
  "\<exists>ns. get_network_stats (Some c1) (Some c2) = Some ns \<and>
     upload_speed ns = of_int (bytes_sent c2 - bytes_sent c1) * 8 / 1000000 / SAMPLE_INTERVAL \<and>
     download_speed ns = of_int (bytes_recv c2 - bytes_recv c1) * 8 / 1000000 / SAMPLE_INTERVAL \<and>
     (bytes_sent c1 \<le> bytes_sent c2 \<longrightarrow> 0 \<le> upload_speed ns) \<and>
     (bytes_recv c1 \<le> bytes_recv c2 \<longrightarrow> 0 \<le> download_speed ns)"
  by (simp add: get_network_stats_def SAMPLE_INTERVAL_def)

theorem get_network_stats_rates_witness:
  "get_network_stats (first_read good_tick) (second_read good_tick) =
     Some \<lparr>download_speed = 2, upload_speed = 0.8, packets_sent = 480, packets_recv = 910,
           errors_in = 0, errors_out = 0\<rparr> \<and>
   (0.8::real) = of_int (5100000 - 5000000) * 8 / 1000000 / SAMPLE_INTERVAL \<and>
   (5000000::int) \<le> 5100000 \<and> (0::real) \<le> 0.8"
  using get_network_stats_rates
    [of "\<lparr>bytes_sent = 5000000, bytes_recv = 9000000, packets_sent = 400,
          packets_recv = 700, errin = 0, errout = 0\<rparr>"
        "\<lparr>bytes_sent = 5100000, bytes_recv = 9250000, packets_sent = 480,
          packets_recv = 910, errin = 0, errout = 0\<rparr>"]
  by (simp add: good_tick_def get_network_stats_def SAMPLE_INTERVAL_def)

text \<open>
  C10, as the claim states it, fails: a dictionary whose four checked fields are not
  below zero is not written when its latency is \<open>None\<close>, nor when the store
  refuses the write.
\<close>

theorem unchecked_fields_counterexample:
  "0 \<le> download_speed no_latency_stats \<and> 0 \<le> upload_speed no_latency_stats \<and>
   0 \<le> packets_sent no_latency_stats \<and> 0 \<le> packets_recv no_latency_stats \<and>
   write_to_influxdb True 64690 no_latency_stats [] = [] \<and>
   0 \<le> download_speed odd_stats \<and> 0 \<le> upload_speed odd_stats \<and>
   0 \<le> packets_sent odd_stats \<and> 0 \<le> packets_recv odd_stats \<and>
   write_to_influxdb False 64690 odd_stats [] = []"
  by (simp add: no_latency_stats_def odd_stats_def write_to_influxdb_def network_point_def
      write_api_write_def)

text \<open>
  C10, amended. A dictionary whose download rate, upload rate, packets sent and packets
  received are not below zero, and whose latency is a number, is written exactly when
  the store accepts the write, with every field as the dictionary holds it: the error
  totals and the latency are not looked at, whatever their sign.
\<close>

theorem write_to_influxdb_keeps_unchecked_fields:
  "0 \<le> download_speed s \<Longrightarrow> 0 \<le> upload_speed s \<Longrightarrow> 0 \<le> packets_sent s \<Longrightarrow>
   0 \<le> packets_recv s \<Longrightarrow> latency s = Some l \<Longrightarrow>
     write_to_influxdb accepted t s bucket =
       (if accepted
        then bucket @ [\<lparr>measurement = ''network_metrics'',
                         point_fields = [(''download_speed'', FloatV (Fin (download_speed s))),
                                         (''upload_speed'', FloatV (Fin (upload_speed s))),
                                         (''packets_sent'', IntV (packets_sent s)),
                                         (''packets_recv'', IntV (packets_recv s)),
                                         (''errors_in'', IntV (errors_in s)),
                                         (''errors_out'', IntV (errors_out s)),
                                         (''latency'', FloatV (Fin l))],
                         point_time = Some t\<rparr>]
        else bucket)"
  by (simp add: write_to_influxdb_def network_point_def write_api_write_def
      not_less [symmetric])

theorem write_to_influxdb_keeps_unchecked_fields_witness:
  "0 \<le> download_speed odd_stats \<and> 0 \<le> upload_speed odd_stats \<and>
   0 \<le> packets_sent odd_stats \<and> 0 \<le> packets_recv odd_stats \<and>
   errors_in odd_stats < 0 \<and> errors_out odd_stats < 0 \<and> latency odd_stats = Some (- 3) \<and>
   write_to_influxdb True 64690 odd_stats [] =
     [\<lparr>measurement = ''network_metrics'',
       point_fields = [(''download_speed'', FloatV (Fin 2)),
                       (''upload_speed'', FloatV (Fin 0.8)),
                       (''packets_sent'', IntV 480),
                       (''packets_recv'', IntV 910),
                       (''errors_in'', IntV (- 4)),
                       (''errors_out'', IntV (- 1)),
                       (''latency'', FloatV (Fin (- 3)))],
       point_time = Some 64690\<rparr>]"
proof -
  have a: "0 \<le> download_speed odd_stats" "0 \<le> upload_speed odd_stats"
    "0 \<le> packets_sent odd_stats" "0 \<le> packets_recv odd_stats"
    by (simp_all add: odd_stats_def)
  have b: "latency odd_stats = Some (- 3)"
    by (simp add: odd_stats_def)
  from write_to_influxdb_keeps_unchecked_fields [OF a b, of True 64690 "[]"] a b
  show ?thesis by (simp add: odd_stats_def)
qed


section \<open>The analyzer: statistics, anomalies, health\<close>

lemmas analyzer_defs = monitor_and_analyze_def get_recent_data_def query_data_frame_def
  row_of_point_def calculate_averages_def metric_averages_def column_def iloc_last_def
  series_mean_def series_std_def arithmetic_mean_def field_number_def
  detect_simple_anomalies_def deviates_def analyze_server_health_def hour_of_def thresholds_def
  write_api_write_def analysis_point_def Let_def

lemma thresholds_rows:
  "peak (upload_thresholds thresholds) = \<lparr>optimal = 0.75, warning = 0.50, critical = 0.25\<rparr>"
  "off_peak (upload_thresholds thresholds) = \<lparr>optimal = 0.85, warning = 0.60, critical = 0.35\<rparr>"
  "peak (latency_thresholds thresholds) = \<lparr>optimal = 30, warning = 50, critical = 100\<rparr>"
  "off_peak (latency_thresholds thresholds) = \<lparr>optimal = 20, warning = 40, critical = 80\<rparr>"
  by (simp_all add: thresholds_def)

lemma peak_hours_iff: "hr \<in> set (peak_hours thresholds) \<longleftrightarrow> 9 \<le> hr \<and> hr \<le> 17"
  by (auto simp: thresholds_def)



text \<open>
  C4. For every threshold configuration, every window with a last row and every pair
  of current values, with the row of cutoffs of the period selected: the score is 0.4,
  0.2 or 0 for the upload (at or above the optimal cutoff, else at or above the warning
  cutoff, else neither) plus 0.6, 0.3 or 0 for the latency (at or below the optimal
  cutoff, else at or below the warning cutoff, else neither), and the status follows
  from the score by the breakpoints 0.8, 0.5 and 0.3. The nine sums that can arise
  compare with the breakpoints in binary floating point as they do here.
\<close>

theorem analyze_server_health_score:
  "current_data \<noteq> [] \<Longrightarrow>
   up = (if hour_of (row_time (last current_data)) \<in> set (peak_hours th)
         then peak (upload_thresholds th) else off_peak (upload_thresholds th)) \<Longrightarrow>
   la = (if hour_of (row_time (last current_data)) \<in> set (peak_hours th)
         then peak (latency_thresholds th) else off_peak (latency_thresholds th)) \<Longrightarrow>
   current (upload_speed_stats st) = Fin u \<Longrightarrow>
   current (latency_stats st) = Fin l \<Longrightarrow>
     \<exists>h. analyze_server_health th current_data st = Inr h \<and>
         health_score h =
           (if u \<ge> optimal up then 0.4 else if u \<ge> warning up then 0.2 else 0) +
           (if l \<le> optimal la then 0.6 else if l \<le> warning la then 0.3 else 0) \<and>
         status h =
           (if health_score h \<ge> 0.8 then ''optimal''
            else if health_score h \<ge> 0.5 then ''good''
            else if health_score h \<ge> 0.3 then ''warning''
            else ''critical'')"
  by (simp add: analyze_server_health_def iloc_last_def Let_def last_map)

text \<open>
  The two examples of the specification, at 14:00 with the peak cutoffs: upload 0.80
  and latency 25 give the score 1 and the status optimal; upload 0.40 and latency 90
  give the score 0 and the status critical.
\<close>

theorem analyze_server_health_score_witness:
  "(\<exists>h. analyze_server_health thresholds [sample_row 50400 0.8 25] (sample_stats 0.8 25) = Inr h \<and>
        health_score h = 1 \<and> status h = ''optimal'') \<and>
   (\<exists>h. analyze_server_health thresholds [sample_row 50400 0.4 90] (sample_stats 0.4 90) = Inr h \<and>
        health_score h = 0 \<and> status h = ''critical'')"
proof -
  have hr: "hour_of (row_time (last [sample_row 50400 u l])) \<in> set (peak_hours thresholds)" for u l
    by (simp add: sample_row_def hour_of_def peak_hours_iff)
  have ne: "[sample_row 50400 u l] \<noteq> []" for u l
    by simp
  have cu: "current (upload_speed_stats (sample_stats u l)) = Fin u"
    and cl: "current (latency_stats (sample_stats u l)) = Fin l" for u l
    by (simp_all add: sample_stats_def)
  from analyze_server_health_score
         [OF ne [of "0.8" 25] refl refl cu [of "0.8" 25] cl [of "0.8" 25], where th = thresholds]
  have a: "\<exists>h. analyze_server_health thresholds [sample_row 50400 0.8 25] (sample_stats 0.8 25) = Inr h \<and>
        health_score h = 1 \<and> status h = ''optimal''"
    by (simp only: hr if_True thresholds_rows) auto
  from analyze_server_health_score
         [OF ne [of "0.4" 90] refl refl cu [of "0.4" 90] cl [of "0.4" 90], where th = thresholds]
  have b: "\<exists>h. analyze_server_health thresholds [sample_row 50400 0.4 90] (sample_stats 0.4 90) = Inr h \<and>
        health_score h = 0 \<and> status h = ''critical''"
    by (simp only: hr if_True thresholds_rows) auto
  from a b show ?thesis by simp
qed

text \<open>
  C5, as the claim states it, fails: the hour is not read from the clock at scoring.
  An analysis run at 18:01:00 over a window whose last point was written at 17:58:00
  records a peak hour, though the hour of the run is 18.
\<close>

theorem peak_hour_not_from_now_counterexample:
  "monitor_and_analyze thresholds \<lparr>now = 64860, query_answers = True, write_accepted = True\<rparr>
     [good_point] =
     [good_point,
      \<lparr>measurement = ''server_analysis'',
       point_fields = [(''current_upload'', FloatV (Fin 0.8)),
                       (''current_latency'', FloatV (Fin 25)),
                       (''avg_upload_5min'', FloatV (Fin 0.8)),
                       (''avg_latency_5min'', FloatV (Fin 25)),
                       (''health_status'', StrV ''optimal''),
                       (''health_score'', FloatV (Fin 1)),
                       (''is_anomaly'', IntV 0),
                       (''is_peak_hour'', IntV 1)],
       point_time = None\<rparr>] \<and>
   hour_of 64860 = 18 \<and> 18 \<notin> set (peak_hours thresholds)"
  by (simp add: analyzer_defs good_point_def)

text \<open>
  C5, amended. The hour is that of the time of the last row of the window. The peak
  flag is set exactly when that hour is one of 9 to 17, and the score is computed with
  the peak cutoffs then and with the off-peak cutoffs otherwise.
\<close>

theorem peak_hour_from_last_record:
  assumes "current_data \<noteq> []"
    and "hr = hour_of (row_time (last current_data))"
    and "cu = current (upload_speed_stats st)"
    and "cl = current (latency_stats st)"
  shows "\<exists>h. analyze_server_health thresholds current_data st = Inr h \<and>
         is_peak_hour h = (9 \<le> hr \<and> hr \<le> 17) \<and>
         health_score h =
           (if 9 \<le> hr \<and> hr \<le> 17
            then (if fge cu (Fin 0.75) then 0.4 else if fge cu (Fin 0.50) then 0.2 else 0) +
                 (if fle cl (Fin 30) then 0.6 else if fle cl (Fin 50) then 0.3 else 0)
            else (if fge cu (Fin 0.85) then 0.4 else if fge cu (Fin 0.60) then 0.2 else 0) +
                 (if fle cl (Fin 20) then 0.6 else if fle cl (Fin 40) then 0.3 else 0))"
proof (cases "9 \<le> hr \<and> hr \<le> 17")
  case True
  with assms(2) have mem: "hour_of (row_time (last current_data)) \<in> set (peak_hours thresholds)"
    by (simp add: peak_hours_iff)
  from assms True show ?thesis
    by (simp add: analyze_server_health_def iloc_last_def Let_def last_map mem thresholds_rows)
next
  case False
  with assms(2) have mem: "hour_of (row_time (last current_data)) \<notin> set (peak_hours thresholds)"
    by (simp add: peak_hours_iff)
  from assms False show ?thesis
    by (simp add: analyze_server_health_def iloc_last_def Let_def last_map mem thresholds_rows)
qed

text \<open>
  At 22:00:00, 08:59:59 and 18:00:00 the off-peak cutoffs give upload 0.8 and latency
  25 the score 0.5; at 09:00:00 and 17:59:59 the peak cutoffs give them the score 1.
\<close>

theorem peak_hour_from_last_record_witness:
  "(\<exists>h. analyze_server_health thresholds [sample_row 79200 0.8 25] (sample_stats 0.8 25) = Inr h \<and>
        \<not> is_peak_hour h \<and> health_score h = 0.5) \<and>
   (\<exists>h. analyze_server_health thresholds [sample_row 32399 0.8 25] (sample_stats 0.8 25) = Inr h \<and>
        \<not> is_peak_hour h \<and> health_score h = 0.5) \<and>
   (\<exists>h. analyze_server_health thresholds [sample_row 32400 0.8 25] (sample_stats 0.8 25) = Inr h \<and>
        is_peak_hour h \<and> health_score h = 1) \<and>
   (\<exists>h. analyze_server_health thresholds [sample_row 64799 0.8 25] (sample_stats 0.8 25) = Inr h \<and>
        is_peak_hour h \<and> health_score h = 1) \<and>
   (\<exists>h. analyze_server_health thresholds [sample_row 64800 0.8 25] (sample_stats 0.8 25) = Inr h \<and>
        \<not> is_peak_hour h \<and> health_score h = 0.5)"
proof -
  have ne: "[sample_row t 0.8 25] \<noteq> []" for t
    by simp
  have hr: "hour_of (row_time (last [sample_row t 0.8 25])) = nat (t div 3600 mod 24)" for t
    by (simp add: sample_row_def hour_of_def)
  have cur: "current (upload_speed_stats (sample_stats 0.8 25)) = Fin 0.8"
    "current (latency_stats (sample_stats 0.8 25)) = Fin 25"
    by (simp_all add: sample_stats_def)
  note r = peak_hour_from_last_record [OF ne refl refl refl, where st = "sample_stats 0.8 25",
      unfolded hr cur]
  from r [of 79200] r [of 32399] r [of 32400] r [of 64799] r [of 64800]
  show ?thesis by simp
qed

subsection \<open>Rounding to the nearest double\<close>























text \<open>
  C9. When the query over the trailing five minutes gives no row, the analysis leaves
  the bucket as it was: no \<open>server_analysis\<close> point is written.
\<close>

theorem empty_window_writes_nothing:
  "query_data_frame bucket (now e) 5 = [] \<Longrightarrow> monitor_and_analyze th e bucket = bucket"
  by (simp add: monitor_and_analyze_def get_recent_data_def)

theorem empty_window_writes_nothing_witness:
  "query_data_frame [good_point] 70000 5 = [] \<and>
   monitor_and_analyze thresholds \<lparr>now = 70000, query_answers = True, write_accepted = True\<rparr>
     [good_point] = [good_point]"
proof -
  have a: "query_data_frame [good_point]
             (now \<lparr>now = 70000, query_answers = True, write_accepted = True\<rparr>) 5 = []"
    by (simp add: query_data_frame_def row_of_point_def good_point_def)
  from empty_window_writes_nothing [OF a, of thresholds] a show ?thesis by simp
qed

end
